theory Spec2Isabelle
  imports Main
begin

section \<open>Values and configuration of the theme provider\<close>

text \<open>
  \<^verbatim>\<open>type Theme = "light" | "dark" | "system"\<close> and \<^verbatim>\<open>SystemTheme\<close> are
  TypeScript types of string literals. They are erased at run time, and the provider
  reads its first value out of the browser storage with a cast (\<^verbatim>\<open>as Theme\<close>), so a
  value of these types is modelled as the JavaScript string it is.
\<close>

type_synonym Theme = string

text \<open>
  The props of \<^verbatim>\<open>ThemeProvider\<close> after destructuring. \<^verbatim>\<open>attribute\<close> is
  \<^verbatim>\<open>string | false\<close>: \<open>None\<close> is \<^verbatim>\<open>false\<close>. The two labels of \<^verbatim>\<open>value\<close> are
  optional: \<open>None\<close> is \<^verbatim>\<open>undefined\<close>.
\<close>

record ThemeProviderProps =
  defaultTheme :: Theme
  storageKey :: string
  disableTransitionOnChange :: bool
  enableSystem :: bool
  attribute :: "string option"
  value_light :: "string option"
  value_dark :: "string option"

definition defaultProps :: ThemeProviderProps where
  "defaultProps =
     \<lparr>defaultTheme = ''system'', storageKey = ''ui-theme'', disableTransitionOnChange = True,
      enableSystem = True, attribute = Some ''data-theme'',
      value_light = Some ''light'', value_dark = Some ''dark''\<rparr>"

text \<open>
  JavaScript's \<^verbatim>\<open>s || d\<close> on a string that may be missing: \<^verbatim>\<open>undefined\<close>,
  \<^verbatim>\<open>null\<close> (both \<open>None\<close>) and the empty string are falsy.
\<close>

definition or_else :: "string option \<Rightarrow> string \<Rightarrow> string" where
  "or_else s d = (case s of None \<Rightarrow> d | Some v \<Rightarrow> if v = [] then d else v)"

datatype error = SecurityError | QuotaExceededError | NotFoundError | Error string

section \<open>The browser: storage, document, window\<close>

text \<open>
  \<^verbatim>\<open>localStorage\<close> is a map from keys to strings whose accessors may throw (storage
  blocked, quota exceeded). \<^verbatim>\<open>getItem\<close> returns \<^verbatim>\<open>null\<close> (\<open>None\<close>) for a missing key.
\<close>

record Storage =
  items :: "string \<rightharpoonup> string"
  getItem_throws :: bool
  setItem_throws :: bool

definition getItem :: "Storage \<Rightarrow> string \<Rightarrow> error + string option" where
  "getItem s k = (if getItem_throws s then Inl SecurityError else Inr (items s k))"

definition setItem :: "Storage \<Rightarrow> string \<Rightarrow> string \<Rightarrow> error + Storage" where
  "setItem s k v =
     (if setItem_throws s then Inl QuotaExceededError else Inr (s\<lparr>items := (items s)(k \<mapsto> v)\<rparr>))"

text \<open>
  The part of the document the provider touches: the class list and the attributes of the
  root element, the \<^verbatim>\<open>content\<close> of the first \<^verbatim>\<open>meta[name="theme-color"]\<close> element
  (\<open>None\<close> when the page has none), the \<^verbatim>\<open>style\<close> elements below the head in
  document order, and the animation-frame callbacks that are scheduled and have not run
  yet. A \<^verbatim>\<open>style\<close> element below the head is a child of the head
  (\<open>parent_is_head\<close>) or lies deeper, inside another element of the head such as a
  \<^verbatim>\<open>noscript\<close>; both kinds are in the result of \<^verbatim>\<open>head.querySelectorAll("style")\<close>,
  and only a child can be removed with \<^verbatim>\<open>head.removeChild\<close>.
  A \<^verbatim>\<open>style\<close> element is an object with an identity: \<open>node_id\<close> is that identity, given
  out by \<^verbatim>\<open>createElement\<close> from the counter \<open>next_node\<close>. Every scheduled callback is the
  same closure; the number kept for it is the identity of the rule that the scheduling call
  of \<^verbatim>\<open>applyTheme\<close> injected, which the callback itself never reads.

  The labels and the attribute name of the configuration are taken to be well formed
  (class tokens without white space, a valid attribute name other than \<^verbatim>\<open>class\<close>), so
  that the calls on the root element do not throw and the class list and the attributes
  do not alias.
\<close>

record StyleElement =
  node_id :: nat
  textContent :: string
  parent_is_head :: bool

record Document =
  root_classList :: "string list"
  root_attributes :: "string \<rightharpoonup> string"
  meta_theme_color :: "string option"
  head_styles :: "StyleElement list"
  frame_callbacks :: "nat list"
  next_node :: nat

definition classList_remove :: "string list \<Rightarrow> Document \<Rightarrow> Document" where
  "classList_remove tokens doc =
     doc\<lparr>root_classList := filter (\<lambda>c. c \<notin> set tokens) (root_classList doc)\<rparr>"

definition classList_add :: "string \<Rightarrow> Document \<Rightarrow> Document" where
  "classList_add token doc =
     (if token \<in> set (root_classList doc) then doc
      else doc\<lparr>root_classList := root_classList doc @ [token]\<rparr>)"

definition removeAttribute :: "string \<Rightarrow> Document \<Rightarrow> Document" where
  "removeAttribute name doc = doc\<lparr>root_attributes := (root_attributes doc)(name := None)\<rparr>"

definition setAttribute :: "string \<Rightarrow> string \<Rightarrow> Document \<Rightarrow> Document" where
  "setAttribute name v doc = doc\<lparr>root_attributes := (root_attributes doc)(name \<mapsto> v)\<rparr>"

text \<open>
  \<^verbatim>\<open>document.createElement("style")\<close>, its text set, appended to the head: the new
  element is the last child of the head, hence the last \<^verbatim>\<open>style\<close> element below it.
\<close>

definition appendStyle :: "string \<Rightarrow> Document \<Rightarrow> Document" where
  "appendStyle css doc =
     doc\<lparr>head_styles :=
           head_styles doc @
           [\<lparr>node_id = next_node doc, textContent = css, parent_is_head = True\<rparr>],
         next_node := Suc (next_node doc)\<rparr>"

definition requestAnimationFrame :: "nat \<Rightarrow> Document \<Rightarrow> Document" where
  "requestAnimationFrame tag doc = doc\<lparr>frame_callbacks := frame_callbacks doc @ [tag]\<rparr>"

record Window =
  prefers_dark :: bool
  document :: Document
  localStorage :: Storage

section \<open>String search\<close>

fun startsWith :: "string \<Rightarrow> string \<Rightarrow> bool" where
  "startsWith s [] = True"
| "startsWith [] (c # cs) = False"
| "startsWith (x # xs) (c # cs) = (x = c \<and> startsWith xs cs)"

text \<open>\<^verbatim>\<open>String.prototype.includes\<close>: the second string occurs in the first.\<close>

fun str_includes :: "string \<Rightarrow> string \<Rightarrow> bool" where
  "str_includes [] t = (t = [])"
| "str_includes (x # xs) t = (startsWith (x # xs) t \<or> str_includes xs t)"

section \<open>Resolution and the apply-to-surface routine\<close>

text \<open>The memoised \<^verbatim>\<open>resolvedTheme\<close>, a function of its dependencies \<^verbatim>\<open>[theme, systemTheme]\<close>.\<close>

definition resolvedTheme :: "Theme \<Rightarrow> Theme \<Rightarrow> Theme" where
  "resolvedTheme theme_v systemTheme_v = (if theme_v = ''system'' then systemTheme_v else theme_v)"

definition themes :: "bool \<Rightarrow> Theme list" where
  "themes enableSystem_v =
     (if enableSystem_v then [''light'', ''dark'', ''system''] else [''light'', ''dark''])"

text \<open>The text of the injected rule: a template literal of five lines.\<close>

definition transition_css :: string where
  "transition_css =
     ''* {'' @ [CHR 0x0A] @
     ''          -webkit-transition: none !important;'' @ [CHR 0x0A] @
     ''          -moz-transition: none !important;'' @ [CHR 0x0A] @
     ''          -o-transition: none !important;'' @ [CHR 0x0A] @
     ''          transition: none !important;'' @ [CHR 0x0A] @
     ''        }''"

definition transition_marker :: string where
  "transition_marker = ''transition: none !important''"

definition light_label :: "ThemeProviderProps \<Rightarrow> string" where
  "light_label props = or_else (value_light props) ''light''"

definition dark_label :: "ThemeProviderProps \<Rightarrow> string" where
  "dark_label props = or_else (value_dark props) ''dark''"

text \<open>
  \<^verbatim>\<open>applyTheme\<close> is a callback that closes over \<^verbatim>\<open>systemTheme\<close> and the props; the
  captured \<^verbatim>\<open>systemTheme\<close> is its second argument. It returns \<^verbatim>\<open>resolved\<close> and
  leaves the document changed.
\<close>

definition applyTheme :: "ThemeProviderProps \<Rightarrow> Theme \<Rightarrow> Theme \<Rightarrow> Document \<Rightarrow> Theme \<times> Document" where
  "applyTheme props systemTheme_v newTheme doc0 =
     (let doc1 = (if disableTransitionOnChange props then appendStyle transition_css doc0 else doc0);
          doc2 = classList_remove [light_label props, dark_label props] doc1;
          doc3 = (case attribute props of
                    None \<Rightarrow> doc2
                  | Some a \<Rightarrow> removeAttribute (or_else (Some a) ''data-theme'') doc2);
          resolved = (if newTheme = ''system'' then systemTheme_v else newTheme);
          doc4 = (case attribute props of
                    None \<Rightarrow>
                      classList_add
                        (if resolved = ''light'' then light_label props else dark_label props) doc3
                  | Some a \<Rightarrow>
                      setAttribute (or_else (Some a) ''data-theme'')
                        (if resolved = ''light'' then light_label props else dark_label props) doc3);
          doc5 = (case meta_theme_color doc4 of
                    None \<Rightarrow> doc4
                  | Some c \<Rightarrow>
                      doc4\<lparr>meta_theme_color :=
                        Some (if resolved = ''light'' then ''#ffffff'' else ''#000000'')\<rparr>);
          doc6 = (if disableTransitionOnChange props
                  then requestAnimationFrame (next_node doc0) doc5 else doc5)
      in (resolved, doc6))"

section \<open>The provider instance\<close>

text \<open>
  The two \<^verbatim>\<open>useState\<close> cells of a mounted \<^verbatim>\<open>ThemeProvider\<close> and the browser window
  it lives in. The initialisers run once, at the first render; \<open>None\<close> for the window is
  \<^verbatim>\<open>typeof window === "undefined"\<close>.
\<close>

record Instance =
  theme :: Theme
  systemTheme :: Theme
  window :: Window

definition initialTheme :: "ThemeProviderProps \<Rightarrow> Window option \<Rightarrow> Theme" where
  "initialTheme props w =
     (case w of
        None \<Rightarrow> defaultTheme props
      | Some win \<Rightarrow>
          (case getItem (localStorage win) (storageKey props) of
             Inl e \<Rightarrow> defaultTheme props
           | Inr stored \<Rightarrow> or_else stored (defaultTheme props)))"

definition initialSystemTheme :: "Window option \<Rightarrow> Theme" where
  "initialSystemTheme w =
     (case w of
        None \<Rightarrow> ''light''
      | Some win \<Rightarrow> if prefers_dark win then ''dark'' else ''light'')"

text \<open>
  The body of the mount/update effect up to the listener: \<^verbatim>\<open>applyTheme(theme)\<close>, then
  \<^verbatim>\<open>setSystemTheme(resolved)\<close>. The \<^verbatim>\<open>applyTheme\<close> it calls is the one of the render
  the effect belongs to, so it resolves with that render's \<^verbatim>\<open>systemTheme\<close>.
\<close>

definition runEffect :: "ThemeProviderProps \<Rightarrow> Instance \<Rightarrow> Instance" where
  "runEffect props st =
     (let r = applyTheme props (systemTheme st) (theme st) (document (window st))
      in st\<lparr>systemTheme := fst r, window := (window st)\<lparr>document := snd r\<rparr>\<rparr>)"

text \<open>
  React's render loop after a state change (and at mount). The render is committed and its
  effect runs: its dependencies are \<^verbatim>\<open>[theme, applyTheme]\<close>, and \<^verbatim>\<open>applyTheme\<close> is a new
  callback whenever \<^verbatim>\<open>systemTheme\<close> changes, so the effect runs after every render that
  follows a change of either cell. If the effect's \<^verbatim>\<open>setSystemTheme\<close> stores a value
  different from the current one, the provider renders again and the effect runs again;
  storing the same value schedules nothing. (With the default \<^verbatim>\<open>value\<close> prop, an object
  made anew at every render, \<^verbatim>\<open>applyTheme\<close> is new at every render; the renders of this
  model all follow a change of a cell, where the effect runs in either case.)

  The effect also removes the previous media-query listener and adds the one of this
  render, so the listener and the callbacks handed to consumers always are those of the
  last committed render: when the loop has ended, the \<^verbatim>\<open>theme\<close> and \<^verbatim>\<open>systemTheme\<close>
  they close over are the current ones. Every event below is run to the end of this loop
  before the next one is taken.
\<close>

function commit :: "ThemeProviderProps \<Rightarrow> Instance \<Rightarrow> Instance" where
  "commit props st =
     (if systemTheme (runEffect props st) = systemTheme st then runEffect props st
      else commit props (runEffect props st))"
  by pat_completeness auto
termination
  by (relation "measure (\<lambda>(props, st). if resolvedTheme (theme st) (systemTheme st) = systemTheme st then 0 else 1)")
     (auto simp: runEffect_def applyTheme_def resolvedTheme_def Let_def split: if_splits)

definition mount :: "ThemeProviderProps \<Rightarrow> Window \<Rightarrow> Instance" where
  "mount props win =
     commit props
       \<lparr>theme = initialTheme props (Some win), systemTheme = initialSystemTheme (Some win),
        window = win\<rparr>"

text \<open>
  \<^verbatim>\<open>setTheme\<close>: the write to storage inside \<^verbatim>\<open>try\<close>/\<^verbatim>\<open>catch\<close>, the state update, the
  direct call of \<^verbatim>\<open>applyTheme\<close>, and then the render loop if the state changed.
\<close>

definition setTheme :: "ThemeProviderProps \<Rightarrow> Theme \<Rightarrow> Instance \<Rightarrow> Instance" where
  "setTheme props newTheme st =
     (let storage' = (case setItem (localStorage (window st)) (storageKey props) newTheme of
                        Inl e \<Rightarrow> localStorage (window st)
                      | Inr s \<Rightarrow> s);
          doc' = snd (applyTheme props (systemTheme st) newTheme (document (window st)));
          st' = st\<lparr>theme := newTheme,
                   window := (window st)\<lparr>document := doc', localStorage := storage'\<rparr>\<rparr>
      in if newTheme = theme st then st' else commit props st')"

definition toggleTheme :: "ThemeProviderProps \<Rightarrow> Instance \<Rightarrow> Instance" where
  "toggleTheme props st = setTheme props (if theme st = ''light'' then ''dark'' else ''light'') st"

text \<open>
  The media-query listener, called with \<^verbatim>\<open>e.matches\<close>. Its \<^verbatim>\<open>applyTheme("system")\<close> is
  the callback of the render that installed the listener, so it still resolves with the
  \<^verbatim>\<open>systemTheme\<close> from before the update.
\<close>

definition handleSystemThemeChange :: "ThemeProviderProps \<Rightarrow> bool \<Rightarrow> Instance \<Rightarrow> Instance" where
  "handleSystemThemeChange props matches st =
     (let newSystemTheme = (if matches then ''dark'' else ''light'');
          doc' = (if theme st = ''system''
                  then snd (applyTheme props (systemTheme st) ''system'' (document (window st)))
                  else document (window st));
          st' = st\<lparr>systemTheme := newSystemTheme, window := (window st)\<lparr>document := doc'\<rparr>\<rparr>
      in if newSystemTheme = systemTheme st then st' else commit props st')"

text \<open>The operating system changes its colour scheme and the browser notifies the listener.\<close>

definition osThemeChange :: "ThemeProviderProps \<Rightarrow> bool \<Rightarrow> Instance \<Rightarrow> Instance" where
  "osThemeChange props matches st =
     handleSystemThemeChange props matches (st\<lparr>window := (window st)\<lparr>prefers_dark := matches\<rparr>\<rparr>)"

definition osTheme :: "bool \<Rightarrow> Theme" where
  "osTheme matches = (if matches then ''dark'' else ''light'')"

fun osThemeChanges :: "ThemeProviderProps \<Rightarrow> bool list \<Rightarrow> Instance \<Rightarrow> Instance" where
  "osThemeChanges props [] st = st"
| "osThemeChanges props (m # ms) st = osThemeChanges props ms (osThemeChange props m st)"

text \<open>The marker on the root element: the configured attribute, or the class list.\<close>

definition rootAttribute :: "ThemeProviderProps \<Rightarrow> Instance \<Rightarrow> string option" where
  "rootAttribute props st =
     (case attribute props of
        None \<Rightarrow> None
      | Some a \<Rightarrow> root_attributes (document (window st)) (or_else (Some a) ''data-theme''))"

section \<open>The context and its accessor\<close>

text \<open>
  \<^verbatim>\<open>ThemeProviderState\<close>, the value handed to consumers. The two callbacks act on the
  provider instance; the ones of \<^verbatim>\<open>initialState\<close> are \<^verbatim>\<open>() => null\<close> and change nothing.
\<close>

record ThemeProviderState =
  ctx_theme :: Theme
  ctx_systemTheme :: Theme
  ctx_resolvedTheme :: Theme
  ctx_themes :: "Theme list"
  ctx_setTheme :: "Theme \<Rightarrow> Instance \<Rightarrow> Instance"
  ctx_toggleTheme :: "Instance \<Rightarrow> Instance"

definition initialState :: ThemeProviderState where
  "initialState =
     \<lparr>ctx_theme = ''system'', ctx_systemTheme = ''light'', ctx_resolvedTheme = ''light'',
      ctx_themes = [''light'', ''dark'', ''system''],
      ctx_setTheme = (\<lambda>t st. st), ctx_toggleTheme = (\<lambda>st. st)\<rparr>"

definition contextValue :: "ThemeProviderProps \<Rightarrow> Instance \<Rightarrow> ThemeProviderState" where
  "contextValue props st =
     \<lparr>ctx_theme = theme st, ctx_systemTheme = systemTheme st,
      ctx_resolvedTheme = resolvedTheme (theme st) (systemTheme st),
      ctx_themes = themes (enableSystem props),
      ctx_setTheme = setTheme props, ctx_toggleTheme = toggleTheme props\<rparr>"

text \<open>
  A JavaScript value that may be \<^verbatim>\<open>undefined\<close>. \<^verbatim>\<open>useContext\<close> returns the value of the
  nearest enclosing provider of the context, and the default value the context was created
  with when there is none (\<open>None\<close>). \<^verbatim>\<open>ThemeProviderContext\<close> is created with
  \<^verbatim>\<open>initialState\<close> as its default.
\<close>

datatype 'a js = Undefined | Defined 'a

definition useContext :: "'a js \<Rightarrow> 'a js option \<Rightarrow> 'a js" where
  "useContext defaultValue provider = (case provider of None \<Rightarrow> defaultValue | Some v \<Rightarrow> v)"

definition useTheme :: "ThemeProviderState js option \<Rightarrow> error + ThemeProviderState" where
  "useTheme provider =
     (case useContext (Defined initialState) provider of
        Undefined \<Rightarrow> Inl (Error ''useTheme must be used within a ThemeProvider'')
      | Defined context \<Rightarrow> Inr context)"

section \<open>Removal of the transition-suppression rule\<close>

text \<open>
  The callback given to \<^verbatim>\<open>requestAnimationFrame\<close>.
  \<^verbatim>\<open>document.head.querySelectorAll("style")\<close> is a static list, taken when the callback
  starts, of all \<^verbatim>\<open>style\<close> elements below the head, children or deeper, in document
  order. \<^verbatim>\<open>forEach\<close> visits them in that order and calls
  \<^verbatim>\<open>document.head.removeChild\<close> on each one whose text includes the marker.
  \<^verbatim>\<open>removeChild\<close> throws \<^verbatim>\<open>NotFoundError\<close> when the node is not a child of the head;
  the exception ends the loop and leaves the head as it is at that moment. The second
  argument of \<open>removeChild\<close> and \<open>forEach_style\<close> is the current list of the \<^verbatim>\<open>style\<close>
  elements below the head.
\<close>

definition removeChild :: "StyleElement \<Rightarrow> StyleElement list \<Rightarrow> error + StyleElement list" where
  "removeChild s below_head =
     (if parent_is_head s \<and> s \<in> set below_head then Inr (remove1 s below_head)
      else Inl NotFoundError)"

fun forEach_style :: "StyleElement list \<Rightarrow> StyleElement list \<Rightarrow> StyleElement list \<times> error option" where
  "forEach_style [] below_head = (below_head, None)"
| "forEach_style (s # styles) below_head =
     (if str_includes (textContent s) transition_marker
      then (case removeChild s below_head of
              Inl e \<Rightarrow> (below_head, Some e)
            | Inr below_head' \<Rightarrow> forEach_style styles below_head')
      else forEach_style styles below_head)"

definition frameCallback :: "Document \<Rightarrow> Document \<times> error option" where
  "frameCallback doc =
     (let r = forEach_style (head_styles doc) (head_styles doc)
      in (doc\<lparr>head_styles := fst r\<rparr>, snd r))"

text \<open>
  Names for the two tests the loop makes on an element: its text includes the marker, and
  it includes the marker without being a child of the head, which is where the loop ends.
\<close>

definition marked :: "StyleElement \<Rightarrow> bool" where
  "marked s = str_includes (textContent s) transition_marker"

definition blocks :: "StyleElement \<Rightarrow> bool" where
  "blocks s = (marked s \<and> \<not> parent_is_head s)"

text \<open>
  What the loop leaves of the list it was started on, in closed form: up to the first
  element where it ends the unmarked elements only, from that element on everything.
  That the loop computes it is \<open>forEach_style_sweep\<close> below.
\<close>

definition sweep :: "StyleElement list \<Rightarrow> StyleElement list" where
  "sweep styles =
     filter (\<lambda>s. \<not> marked s) (takeWhile (\<lambda>s. \<not> blocks s) styles) @
     dropWhile (\<lambda>s. \<not> blocks s) styles"

text \<open>
  The browser takes the oldest scheduled callback and runs it; an exception of a callback
  is reported and does not reach the others. A frame runs the callbacks that are scheduled
  when it starts, oldest first.
\<close>

definition runNextCallback :: "Document \<Rightarrow> Document" where
  "runNextCallback doc =
     (case frame_callbacks doc of
        [] \<Rightarrow> doc
      | tag # rest \<Rightarrow> fst (frameCallback (doc\<lparr>frame_callbacks := rest\<rparr>)))"

fun runCallbacks :: "nat \<Rightarrow> Document \<Rightarrow> Document" where
  "runCallbacks 0 doc = doc"
| "runCallbacks (Suc n) doc = runCallbacks n (runNextCallback doc)"

definition animationFrame :: "Document \<Rightarrow> Document" where
  "animationFrame doc = runCallbacks (length (frame_callbacks doc)) doc"

section \<open>Concrete browsers and pages\<close>

definition emptyDocument :: Document where
  "emptyDocument =
     \<lparr>root_classList = [], root_attributes = Map.empty, meta_theme_color = None,
      head_styles = [], frame_callbacks = [], next_node = 0\<rparr>"

definition workingStorage :: "(string \<rightharpoonup> string) \<Rightarrow> Storage" where
  "workingStorage m = \<lparr>items = m, getItem_throws = False, setItem_throws = False\<rparr>"

definition blockedStorage :: "(string \<rightharpoonup> string) \<Rightarrow> Storage" where
  "blockedStorage m = \<lparr>items = m, getItem_throws = True, setItem_throws = True\<rparr>"

definition browser :: "bool \<Rightarrow> Storage \<Rightarrow> Window" where
  "browser dark s = \<lparr>prefers_dark = dark, document = emptyDocument, localStorage = s\<rparr>"

text \<open>Instances used as concrete inputs below.\<close>

definition systemLightInstance :: Instance where
  "systemLightInstance = mount defaultProps (browser False (workingStorage Map.empty))"

definition darkInstance :: Instance where
  "darkInstance = mount defaultProps (browser True (workingStorage [''ui-theme'' \<mapsto> ''dark'']))"

definition blockedInstance :: Instance where
  "blockedInstance = mount defaultProps (browser True (blockedStorage Map.empty))"

text \<open>Two calls of \<^verbatim>\<open>applyTheme\<close> on an empty page, with no frame in between.\<close>

definition twoChanges :: Document where
  "twoChanges =
     snd (applyTheme defaultProps ''light'' ''light''
       (snd (applyTheme defaultProps ''light'' ''dark'' emptyDocument)))"

text \<open>
  A page whose head holds, inside a \<^verbatim>\<open>noscript\<close> element, a \<^verbatim>\<open>style\<close> element of its
  own whose text includes the marker; and one call of \<^verbatim>\<open>applyTheme\<close> on that page.
\<close>

definition still_css :: string where
  "still_css = ''.still { transition: none !important; }''"

definition nestedStylePage :: Document where
  "nestedStylePage =
     emptyDocument
       \<lparr>head_styles := [\<lparr>node_id = 0, textContent = still_css, parent_is_head = False\<rparr>],
        next_node := 1\<rparr>"

definition nestedStyleChange :: Document where
  "nestedStyleChange = snd (applyTheme defaultProps ''light'' ''dark'' nestedStylePage)"

section \<open>The toggle as the specification words it\<close>

text \<open>
  The specification describes the toggle as \<^verbatim>\<open>setTheme\<close> called with the opposite of the
  current resolved theme. These two definitions follow that wording, to be compared with
  \<open>toggleTheme\<close>, which follows the source.
\<close>

definition opposite :: "Theme \<Rightarrow> Theme" where
  "opposite r = (if r = ''light'' then ''dark'' else ''light'')"

definition spec_toggleTheme :: "ThemeProviderProps \<Rightarrow> Instance \<Rightarrow> Instance" where
  "spec_toggleTheme props st =
     setTheme props (opposite (resolvedTheme (theme st) (systemTheme st))) st"

section \<open>Properties of the render loop\<close>

declare commit.simps [simp del]

lemma theme_runEffect: "theme (runEffect props st) = theme st"
  by (simp add: runEffect_def Let_def)

lemma systemTheme_runEffect:
  "systemTheme (runEffect props st) = resolvedTheme (theme st) (systemTheme st)"
  by (simp add: runEffect_def applyTheme_def resolvedTheme_def Let_def)

lemma localStorage_runEffect:
  "localStorage (window (runEffect props st)) = localStorage (window st)"
  by (simp add: runEffect_def Let_def)

lemma prefers_dark_runEffect:
  "prefers_dark (window (runEffect props st)) = prefers_dark (window st)"
  by (simp add: runEffect_def Let_def)

lemma resolvedTheme_idem: "resolvedTheme t (resolvedTheme t s) = resolvedTheme t s"
  by (simp add: resolvedTheme_def)

text \<open>The loop ends after one effect, or takes exactly one more round.\<close>

lemma commit_cases:
  "commit props st =
     (if systemTheme (runEffect props st) = systemTheme st then runEffect props st
      else commit props (runEffect props st))"
  by (subst commit.simps) simp

lemma commit_theme: "theme (commit props st) = theme st"
proof (induction props st rule: commit.induct)
  case (1 props st)
  show ?case
  proof (cases "systemTheme (runEffect props st) = systemTheme st")
    case True
    then have "commit props st = runEffect props st"
      by (simp add: commit_cases)
    then show ?thesis by (simp add: theme_runEffect)
  next
    case False
    then have "commit props st = commit props (runEffect props st)"
      by (simp add: commit_cases)
    with False "1.IH" show ?thesis by (simp add: theme_runEffect)
  qed
qed

lemma commit_systemTheme:
  "systemTheme (commit props st) = resolvedTheme (theme st) (systemTheme st)"
proof (induction props st rule: commit.induct)
  case (1 props st)
  show ?case
  proof (cases "systemTheme (runEffect props st) = systemTheme st")
    case True
    then have "commit props st = runEffect props st"
      by (simp add: commit_cases)
    then show ?thesis by (simp add: systemTheme_runEffect)
  next
    case False
    then have "commit props st = commit props (runEffect props st)"
      by (simp add: commit_cases)
    with False "1.IH" show ?thesis
      by (simp add: theme_runEffect systemTheme_runEffect resolvedTheme_idem)
  qed
qed

lemma commit_localStorage: "localStorage (window (commit props st)) = localStorage (window st)"
proof (induction props st rule: commit.induct)
  case (1 props st)
  show ?case
  proof (cases "systemTheme (runEffect props st) = systemTheme st")
    case True
    then have "commit props st = runEffect props st"
      by (simp add: commit_cases)
    then show ?thesis by (simp add: localStorage_runEffect)
  next
    case False
    then have "commit props st = commit props (runEffect props st)"
      by (simp add: commit_cases)
    with False "1.IH" show ?thesis by (simp add: localStorage_runEffect)
  qed
qed

lemma commit_prefers_dark: "prefers_dark (window (commit props st)) = prefers_dark (window st)"
proof (induction props st rule: commit.induct)
  case (1 props st)
  show ?case
  proof (cases "systemTheme (runEffect props st) = systemTheme st")
    case True
    then have "commit props st = runEffect props st"
      by (simp add: commit_cases)
    then show ?thesis by (simp add: prefers_dark_runEffect)
  next
    case False
    then have "commit props st = commit props (runEffect props st)"
      by (simp add: commit_cases)
    with False "1.IH" show ?thesis by (simp add: prefers_dark_runEffect)
  qed
qed

text \<open>In attribute mode the marker on the root is the label of what was resolved last.\<close>

lemma root_attributes_applyTheme:
  "attribute props = Some a \<Longrightarrow>
   root_attributes (snd (applyTheme props s t doc)) (or_else (Some a) ''data-theme'') =
     Some (if resolvedTheme t s = ''light'' then light_label props else dark_label props)"
  by (simp add: applyTheme_def Let_def resolvedTheme_def setAttribute_def removeAttribute_def
      requestAnimationFrame_def classList_remove_def appendStyle_def split: option.splits)

lemma rootAttribute_runEffect:
  "attribute props = Some a \<Longrightarrow>
   rootAttribute props (runEffect props st) =
     Some (if resolvedTheme (theme st) (systemTheme st) = ''light''
           then light_label props else dark_label props)"
  by (simp add: rootAttribute_def runEffect_def Let_def root_attributes_applyTheme)

lemma rootAttribute_commit:
  "attribute props = Some a \<Longrightarrow>
   rootAttribute props (commit props st) =
     Some (if resolvedTheme (theme st) (systemTheme st) = ''light''
           then light_label props else dark_label props)"
proof (induction props st rule: commit.induct)
  case (1 props st)
  show ?case
  proof (cases "systemTheme (runEffect props st) = systemTheme st")
    case True
    then have "commit props st = runEffect props st"
      by (simp add: commit_cases)
    with "1.prems" show ?thesis by (simp add: rootAttribute_runEffect)
  next
    case False
    then have "commit props st = commit props (runEffect props st)"
      by (simp add: commit_cases)
    with False "1.IH" "1.prems" show ?thesis
      by (simp add: theme_runEffect systemTheme_runEffect resolvedTheme_idem)
  qed
qed

section \<open>Properties of the operations\<close>

lemma theme_setTheme: "theme (setTheme props p st) = p"
  by (simp add: setTheme_def Let_def commit_theme)

lemma systemTheme_setTheme:
  "systemTheme (setTheme props p st) =
     (if p = theme st then systemTheme st else resolvedTheme p (systemTheme st))"
  by (simp add: setTheme_def Let_def commit_systemTheme)

lemma localStorage_setTheme:
  "localStorage (window (setTheme props p st)) =
     (case setItem (localStorage (window st)) (storageKey props) p of
        Inl e \<Rightarrow> localStorage (window st)
      | Inr s \<Rightarrow> s)"
  by (simp add: setTheme_def Let_def commit_localStorage)

lemma prefers_dark_setTheme:
  "prefers_dark (window (setTheme props p st)) = prefers_dark (window st)"
  by (simp add: setTheme_def Let_def commit_prefers_dark)

lemma theme_mount: "theme (mount props win) = initialTheme props (Some win)"
  by (simp add: mount_def commit_theme)

lemma theme_osThemeChange: "theme (osThemeChange props m st) = theme st"
  by (simp add: osThemeChange_def handleSystemThemeChange_def Let_def commit_theme)

lemma systemTheme_osThemeChange_system:
  "theme st = ''system'' \<Longrightarrow> systemTheme (osThemeChange props m st) = osTheme m"
  by (simp add: osThemeChange_def handleSystemThemeChange_def Let_def commit_systemTheme
      resolvedTheme_def osTheme_def)

lemma theme_osThemeChanges: "theme (osThemeChanges props ms st) = theme st"
  by (induction ms arbitrary: st) (simp_all add: theme_osThemeChange)

lemma systemTheme_osThemeChanges_system:
  "theme st = ''system'' \<Longrightarrow> ms \<noteq> [] \<Longrightarrow>
   systemTheme (osThemeChanges props ms st) = osTheme (last ms)"
proof (induction ms arbitrary: st)
  case Nil
  then show ?case by simp
next
  case (Cons m ms)
  show ?case
  proof (cases "ms = []")
    case True
    with Cons.prems show ?thesis by (simp add: systemTheme_osThemeChange_system)
  next
    case False
    have "theme (osThemeChange props m st) = ''system''"
      using Cons.prems by (simp add: theme_osThemeChange)
    from Cons.IH [OF this False] False show ?thesis by simp
  qed
qed

text \<open>
  The loop of the frame callback, started on the list it took when it began: it removes
  the marked children of the head it meets, keeps the unmarked elements in their order,
  and ends with \<^verbatim>\<open>NotFoundError\<close> at the first marked element that is not a child of
  the head, if there is one, leaving that element and all later ones in place.
\<close>

lemma sweep_Nil: "sweep [] = []"
  by (simp add: sweep_def)

lemma sweep_Cons:
  "sweep (s # styles) =
     (if blocks s then s # styles else if marked s then sweep styles else s # sweep styles)"
  by (simp add: sweep_def)

lemma sweep_idem: "sweep (sweep styles) = sweep styles"
  by (induction styles) (simp_all add: sweep_Nil sweep_Cons blocks_def)

lemma sweep_no_blocks:
  "\<not> list_ex blocks styles \<Longrightarrow> sweep styles = filter (\<lambda>s. \<not> marked s) styles"
  by (induction styles) (simp_all add: sweep_Nil sweep_Cons)

lemma forEach_style_sweep:
  "\<forall>s \<in> set pre. \<not> marked s \<Longrightarrow>
   forEach_style styles (pre @ styles) =
     (pre @ sweep styles, if list_ex blocks styles then Some NotFoundError else None)"
proof (induction styles arbitrary: pre)
  case Nil
  then show ?case by (simp add: sweep_Nil)
next
  case (Cons s styles)
  show ?case
  proof (cases "marked s")
    case True
    note m = True
    show ?thesis
    proof (cases "parent_is_head s")
      case True
      from m Cons.prems have "s \<notin> set pre" by auto
      with True have "removeChild s (pre @ s # styles) = Inr (pre @ styles)"
        by (simp add: removeChild_def remove1_append)
      with m True Cons.IH [OF Cons.prems] show ?thesis
        by (simp add: sweep_Cons blocks_def marked_def [symmetric])
    next
      case False
      then have "removeChild s (pre @ s # styles) = Inl NotFoundError"
        by (simp add: removeChild_def)
      with m False show ?thesis
        by (simp add: sweep_Cons blocks_def marked_def [symmetric])
    qed
  next
    case False
    with Cons.prems have "\<forall>x \<in> set (pre @ [s]). \<not> marked x"
      by auto
    from Cons.IH [OF this] False show ?thesis
      by (simp add: sweep_Cons blocks_def marked_def [symmetric])
  qed
qed

lemma frameCallback_sweep:
  "frameCallback doc =
     (doc\<lparr>head_styles := sweep (head_styles doc)\<rparr>,
      if list_ex blocks (head_styles doc) then Some NotFoundError else None)"
  using forEach_style_sweep [of "[]" "head_styles doc"]
  by (simp add: frameCallback_def Let_def)

lemma head_styles_runNextCallback:
  "head_styles (runNextCallback doc) =
     (if frame_callbacks doc = [] then head_styles doc else sweep (head_styles doc))"
  by (simp add: runNextCallback_def frameCallback_sweep split: list.splits)

lemma frame_callbacks_runNextCallback:
  "frame_callbacks (runNextCallback doc) = tl (frame_callbacks doc)"
  by (simp add: runNextCallback_def frameCallback_sweep split: list.splits)

text \<open>A frame with at least one callback leaves the head as its first callback left it.\<close>

lemma head_styles_runCallbacks:
  "0 < n \<Longrightarrow> n \<le> length (frame_callbacks doc) \<Longrightarrow>
   head_styles (runCallbacks n doc) = sweep (head_styles doc)"
proof (induction n arbitrary: doc)
  case 0
  then show ?case by simp
next
  case (Suc n)
  from Suc.prems have ne: "frame_callbacks doc \<noteq> []" by auto
  show ?case
  proof (cases "n = 0")
    case True
    with ne show ?thesis by (simp add: head_styles_runNextCallback)
  next
    case False
    from Suc.prems have "n \<le> length (frame_callbacks (runNextCallback doc))"
      by (simp add: frame_callbacks_runNextCallback)
    with False Suc.IH [of "runNextCallback doc"] ne show ?thesis
      by (simp add: head_styles_runNextCallback sweep_idem)
  qed
qed

lemma head_styles_animationFrame:
  "frame_callbacks doc \<noteq> [] \<Longrightarrow> head_styles (animationFrame doc) = sweep (head_styles doc)"
  by (simp add: animationFrame_def head_styles_runCallbacks)

lemma transition_css_includes_marker: "str_includes transition_css transition_marker"
  by (simp add: transition_css_def transition_marker_def)

lemma still_css_includes_marker: "str_includes still_css transition_marker"
  by (simp add: still_css_def transition_marker_def)

section \<open>The concrete instances\<close>

lemmas instance_defs = systemLightInstance_def darkInstance_def blockedInstance_def mount_def
  browser_def workingStorage_def blockedStorage_def defaultProps_def initialTheme_def
  initialSystemTheme_def getItem_def or_else_def

lemma theme_systemLightInstance: "theme systemLightInstance = ''system''"
  by (simp add: instance_defs commit_theme)

lemma systemTheme_systemLightInstance: "systemTheme systemLightInstance = ''light''"
  by (simp add: instance_defs commit_theme commit_systemTheme resolvedTheme_def)

lemma localStorage_systemLightInstance:
  "localStorage (window systemLightInstance) = workingStorage Map.empty"
  by (simp add: systemLightInstance_def mount_def commit_localStorage browser_def)

lemma theme_darkInstance: "theme darkInstance = ''dark''"
  by (simp add: instance_defs commit_theme)

lemma systemTheme_darkInstance: "systemTheme darkInstance = ''dark''"
  by (simp add: instance_defs commit_theme commit_systemTheme resolvedTheme_def)

lemma setItem_throws_blockedInstance: "setItem_throws (localStorage (window blockedInstance))"
  by (simp add: blockedInstance_def mount_def commit_localStorage browser_def blockedStorage_def)

lemmas applyTheme_defs = applyTheme_def Let_def defaultProps_def emptyDocument_def
  appendStyle_def classList_remove_def removeAttribute_def setAttribute_def
  requestAnimationFrame_def or_else_def light_label_def dark_label_def

lemma head_styles_twoChanges:
  "head_styles twoChanges =
     [\<lparr>node_id = 0, textContent = transition_css, parent_is_head = True\<rparr>,
      \<lparr>node_id = 1, textContent = transition_css, parent_is_head = True\<rparr>]"
  by (simp add: twoChanges_def applyTheme_defs)

lemma frame_callbacks_twoChanges: "frame_callbacks twoChanges = [0, 1]"
  by (simp add: twoChanges_def applyTheme_defs)

lemma head_styles_nestedStyleChange:
  "head_styles nestedStyleChange =
     [\<lparr>node_id = 0, textContent = still_css, parent_is_head = False\<rparr>,
      \<lparr>node_id = 1, textContent = transition_css, parent_is_head = True\<rparr>]"
  by (simp add: nestedStyleChange_def nestedStylePage_def applyTheme_defs)

lemma frame_callbacks_nestedStyleChange: "frame_callbacks nestedStyleChange = [1]"
  by (simp add: nestedStyleChange_def nestedStylePage_def applyTheme_defs)

section \<open>The accessor outside a provider\<close>

text \<open>
  Claim C1 says that \<^verbatim>\<open>useTheme\<close>, called with no \<^verbatim>\<open>ThemeProvider\<close> above it, throws
  instead of returning a silent default. The guard of \<^verbatim>\<open>useTheme\<close> compares the context
  with \<^verbatim>\<open>undefined\<close>, but the context is created with \<^verbatim>\<open>initialState\<close> as its
  default, so outside a provider the accessor returns \<^verbatim>\<open>initialState\<close> (preference
  \<^verbatim>\<open>"system"\<close>, resolved \<^verbatim>\<open>"light"\<close>, setters that do nothing) and the guard is never
  taken: the error is raised only for a provider whose value is \<^verbatim>\<open>undefined\<close>.
\<close>

theorem useTheme_outside_provider_returns_initialState:
  "useTheme None = Inr initialState \<and>
   ctx_theme initialState = ''system'' \<and> ctx_resolvedTheme initialState = ''light'' \<and>
   ctx_setTheme initialState ''dark'' st = st \<and>
   (useTheme provider = Inl (Error ''useTheme must be used within a ThemeProvider'')
      \<longleftrightarrow> provider = Some Undefined)"
proof -
  have "useTheme provider = Inl (Error ''useTheme must be used within a ThemeProvider'')
          \<longleftrightarrow> provider = Some Undefined"
    by (simp add: useTheme_def useContext_def split: option.splits js.splits)
  then show ?thesis
    by (simp add: useTheme_def useContext_def initialState_def)
qed

section \<open>The system theme under an explicit preference\<close>

text \<open>
  Claim C2 says that a notification of the operating system under the explicit preference
  \<^verbatim>\<open>"dark"\<close> leaves \<^verbatim>\<open>systemTheme\<close> at the value the system reported, and that a
  change of preference never alters \<^verbatim>\<open>systemTheme\<close>. In the code the effect stores the
  resolved theme into \<^verbatim>\<open>systemTheme\<close> (\<^verbatim>\<open>setSystemTheme(resolved)\<close>) each time it runs.
  For the provider mounted with the stored preference \<^verbatim>\<open>"dark"\<close>, after the system
  switches to light the listener stores \<^verbatim>\<open>"light"\<close>, the effect runs again and stores
  \<^verbatim>\<open>"dark"\<close>: the instance ends with \<^verbatim>\<open>systemTheme = "dark"\<close>, the resolved theme and
  the marker still \<^verbatim>\<open>"dark"\<close>, while the media query reports light. And for the provider
  mounted under a light system with nothing stored, \<^verbatim>\<open>setTheme("dark")\<close> turns
  \<^verbatim>\<open>systemTheme\<close> from \<^verbatim>\<open>"light"\<close> to \<^verbatim>\<open>"dark"\<close>, so that a following
  \<^verbatim>\<open>setTheme("system")\<close> resolves to \<^verbatim>\<open>"dark"\<close> under a system that is light.
\<close>

theorem systemTheme_overwritten_by_resolved:
  "theme darkInstance = ''dark'' \<and>
   prefers_dark (window (osThemeChange defaultProps False darkInstance)) = False \<and>
   osTheme False = ''light'' \<and>
   systemTheme (osThemeChange defaultProps False darkInstance) = ''dark'' \<and>
   ctx_resolvedTheme (contextValue defaultProps (osThemeChange defaultProps False darkInstance)) = ''dark'' \<and>
   rootAttribute defaultProps (osThemeChange defaultProps False darkInstance) = Some ''dark'' \<and>
   prefers_dark (window (setTheme defaultProps ''dark'' systemLightInstance)) = False \<and>
   systemTheme systemLightInstance = ''light'' \<and>
   systemTheme (setTheme defaultProps ''dark'' systemLightInstance) = ''dark'' \<and>
   prefers_dark (window (setTheme defaultProps ''system''
     (setTheme defaultProps ''dark'' systemLightInstance))) = False \<and>
   ctx_theme (contextValue defaultProps (setTheme defaultProps ''system''
     (setTheme defaultProps ''dark'' systemLightInstance))) = ''system'' \<and>
   ctx_resolvedTheme (contextValue defaultProps (setTheme defaultProps ''system''
     (setTheme defaultProps ''dark'' systemLightInstance))) = ''dark''"
proof -
  have a: "attribute defaultProps = Some ''data-theme''"
    by (simp add: defaultProps_def)
  have "rootAttribute defaultProps (osThemeChange defaultProps False darkInstance) =
          Some (dark_label defaultProps)"
    by (simp add: osThemeChange_def handleSystemThemeChange_def Let_def theme_darkInstance
        systemTheme_darkInstance rootAttribute_commit [OF a] resolvedTheme_def)
  then have marker: "rootAttribute defaultProps (osThemeChange defaultProps False darkInstance) =
          Some ''dark''"
    by (simp add: dark_label_def or_else_def defaultProps_def)
  have os: "prefers_dark (window (osThemeChange defaultProps False darkInstance)) = False"
    by (simp add: osThemeChange_def handleSystemThemeChange_def Let_def theme_darkInstance
        systemTheme_darkInstance commit_prefers_dark)
  have sys: "systemTheme (osThemeChange defaultProps False darkInstance) = ''dark''"
    by (simp add: osThemeChange_def handleSystemThemeChange_def Let_def theme_darkInstance
        systemTheme_darkInstance commit_systemTheme resolvedTheme_def)
  have light: "prefers_dark (window systemLightInstance) = False"
    by (simp add: systemLightInstance_def mount_def commit_prefers_dark browser_def)
  have os': "prefers_dark (window (setTheme defaultProps ''dark'' systemLightInstance)) = False"
    by (simp add: prefers_dark_setTheme light)
  have sys': "systemTheme (setTheme defaultProps ''dark'' systemLightInstance) = ''dark''"
    by (simp add: systemTheme_setTheme theme_systemLightInstance resolvedTheme_def)
  have again: "systemTheme (setTheme defaultProps ''system''
      (setTheme defaultProps ''dark'' systemLightInstance)) = ''dark''"
    by (simp add: systemTheme_setTheme theme_setTheme theme_systemLightInstance resolvedTheme_def)
  show ?thesis
    using marker os sys os' sys' again
    by (simp add: theme_darkInstance systemTheme_systemLightInstance osTheme_def
        contextValue_def theme_osThemeChange theme_setTheme prefers_dark_setTheme light
        resolvedTheme_def)
qed

section \<open>The toggle\<close>

text \<open>
  Claim C3, as stated, says that in every state \<^verbatim>\<open>toggleTheme()\<close> is \<^verbatim>\<open>setTheme\<close> applied
  to the opposite of the current resolved theme. It fails where the preference is
  \<^verbatim>\<open>"system"\<close> and the resolved theme is \<^verbatim>\<open>"light"\<close>: \<^verbatim>\<open>toggleTheme\<close> tests the
  preference, which is not \<^verbatim>\<open>"light"\<close>, and sets \<^verbatim>\<open>"light"\<close>, where the opposite of the
  resolved theme is \<^verbatim>\<open>"dark"\<close>.
\<close>

theorem toggleTheme_system_light_counterexample:
  "theme systemLightInstance = ''system'' \<and>
   ctx_resolvedTheme (contextValue defaultProps systemLightInstance) = ''light'' \<and>
   theme (toggleTheme defaultProps systemLightInstance) = ''light'' \<and>
   theme (spec_toggleTheme defaultProps systemLightInstance) = ''dark'' \<and>
   toggleTheme defaultProps systemLightInstance \<noteq> spec_toggleTheme defaultProps systemLightInstance"
proof -
  have a: "theme (toggleTheme defaultProps systemLightInstance) = ''light''"
    by (simp add: toggleTheme_def theme_setTheme theme_systemLightInstance)
  have b: "theme (spec_toggleTheme defaultProps systemLightInstance) = ''dark''"
    by (simp add: spec_toggleTheme_def theme_setTheme theme_systemLightInstance
        systemTheme_systemLightInstance resolvedTheme_def opposite_def)
  have c: "toggleTheme defaultProps systemLightInstance \<noteq>
           spec_toggleTheme defaultProps systemLightInstance"
  proof
    assume "toggleTheme defaultProps systemLightInstance =
            spec_toggleTheme defaultProps systemLightInstance"
    then have "theme (toggleTheme defaultProps systemLightInstance) =
               theme (spec_toggleTheme defaultProps systemLightInstance)"
      by simp
    with a b show False by simp
  qed
  show ?thesis
    using a b c
    by (simp add: contextValue_def theme_systemLightInstance systemTheme_systemLightInstance
        resolvedTheme_def)
qed

text \<open>
  Claim C3, amended. \<^verbatim>\<open>toggleTheme()\<close> flips on the preference, not on the resolved theme.
  In every state where the preference is not \<^verbatim>\<open>"system"\<close> or the system theme is not
  \<^verbatim>\<open>"light"\<close> it is \<^verbatim>\<open>setTheme\<close> applied to the opposite of the current resolved theme
  (so from a system-resolved dark theme it sets the explicit \<^verbatim>\<open>"light"\<close>); and whenever
  the preference is \<^verbatim>\<open>"system"\<close> it sets the explicit \<^verbatim>\<open>"light"\<close>, also when the
  resolved theme is light already.
\<close>

theorem toggleTheme_flips_on_preference:
  "(theme st \<noteq> ''system'' \<or> systemTheme st \<noteq> ''light'' \<longrightarrow>
      toggleTheme props st = spec_toggleTheme props st) \<and>
   (theme st = ''system'' \<longrightarrow> theme (toggleTheme props st) = ''light'')"
  by (auto simp add: toggleTheme_def spec_toggleTheme_def resolvedTheme_def opposite_def
      theme_setTheme)

theorem toggleTheme_flips_on_preference_witness:
  "theme darkInstance \<noteq> ''system'' \<and>
   toggleTheme defaultProps darkInstance = spec_toggleTheme defaultProps darkInstance \<and>
   theme systemLightInstance = ''system'' \<and>
   theme (toggleTheme defaultProps systemLightInstance) = ''light''"
  using toggleTheme_flips_on_preference [of darkInstance defaultProps]
    toggleTheme_flips_on_preference [of systemLightInstance defaultProps]
  by (simp add: theme_darkInstance theme_systemLightInstance)

section \<open>Initialisation from storage\<close>

text \<open>
  Claim C4, as stated, says that a stored value that is absent, corrupted (not one of the
  three tags) or unreadable falls back to the configured default. It fails for a corrupted
  value: the initialiser casts whatever string it reads and falls back only on a falsy one,
  so the stored \<^verbatim>\<open>"blue"\<close> becomes the preference.
\<close>

theorem corrupted_stored_value_counterexample:
  "initialTheme defaultProps
     (Some (browser False (workingStorage [''ui-theme'' \<mapsto> ''blue'']))) = ''blue'' \<and>
   theme (mount defaultProps (browser False (workingStorage [''ui-theme'' \<mapsto> ''blue'']))) = ''blue'' \<and>
   defaultTheme defaultProps = ''system'' \<and>
   ''blue'' \<notin> set (themes True)"
  by (simp add: theme_mount initialTheme_def browser_def workingStorage_def getItem_def
      or_else_def defaultProps_def themes_def)

text \<open>
  Claim C4, amended. On initialisation the preference falls back to the configured default
  when reading the storage throws, when nothing is stored under the key, when the stored
  value is the empty string, and when there is no window; every other stored string, one
  of the three tags or not, becomes the preference as it is.
\<close>

theorem initial_theme_fallback:
  "(getItem_throws (localStorage win) \<longrightarrow> theme (mount props win) = defaultTheme props) \<and>
   (\<not> getItem_throws (localStorage win) \<and> items (localStorage win) (storageKey props) = None
      \<longrightarrow> theme (mount props win) = defaultTheme props) \<and>
   (\<not> getItem_throws (localStorage win) \<and> items (localStorage win) (storageKey props) = Some []
      \<longrightarrow> theme (mount props win) = defaultTheme props) \<and>
   (\<not> getItem_throws (localStorage win) \<and> items (localStorage win) (storageKey props) = Some v \<and>
    v \<noteq> []
      \<longrightarrow> theme (mount props win) = v) \<and>
   initialTheme props None = defaultTheme props"
  by (simp add: theme_mount initialTheme_def getItem_def or_else_def)

theorem initial_theme_fallback_witness:
  "theme (mount defaultProps (browser True (blockedStorage [''ui-theme'' \<mapsto> ''dark'']))) = ''system'' \<and>
   theme (mount defaultProps (browser True (workingStorage Map.empty))) = ''system'' \<and>
   theme (mount defaultProps (browser True (workingStorage [''ui-theme'' \<mapsto> '''']))) = ''system'' \<and>
   theme (mount defaultProps (browser True (workingStorage [''ui-theme'' \<mapsto> ''light'']))) = ''light''"
  using
    initial_theme_fallback
      [of "browser True (blockedStorage [''ui-theme'' \<mapsto> ''dark''])" defaultProps]
    initial_theme_fallback [of "browser True (workingStorage Map.empty)" defaultProps]
    initial_theme_fallback
      [of "browser True (workingStorage [''ui-theme'' \<mapsto> ''''])" defaultProps]
    initial_theme_fallback
      [of "browser True (workingStorage [''ui-theme'' \<mapsto> ''light''])" defaultProps "''light''"]
  by (simp add: browser_def blockedStorage_def workingStorage_def defaultProps_def)

section \<open>Resolution after a change of preference or of the system theme\<close>

text \<open>
  Claim C5. For every preference \<open>p\<close> other than \<^verbatim>\<open>"system"\<close>, every instance (hence
  every system theme) and all props, after \<^verbatim>\<open>setTheme(p)\<close> the provider exposes the
  preference \<open>p\<close> and the resolved theme \<open>p\<close>.
\<close>

theorem explicit_preference_resolves_to_itself:
  "p \<noteq> ''system'' \<Longrightarrow>
   ctx_theme (contextValue props (setTheme props p st)) = p \<and>
   ctx_resolvedTheme (contextValue props (setTheme props p st)) = p"
  by (simp add: contextValue_def theme_setTheme resolvedTheme_def)

theorem explicit_preference_resolves_to_itself_witness:
  "''dark'' \<noteq> ''system'' \<and> systemTheme systemLightInstance = ''light'' \<and>
   ctx_resolvedTheme
     (contextValue defaultProps (setTheme defaultProps ''dark'' systemLightInstance)) = ''dark''"
  using explicit_preference_resolves_to_itself [of "''dark''" defaultProps systemLightInstance]
  by (simp add: systemTheme_systemLightInstance)

text \<open>
  Claim C6. Starting from any instance whose preference is \<^verbatim>\<open>"system"\<close>, after every
  sequence of notifications of the operating system the preference is still
  \<^verbatim>\<open>"system"\<close> and the resolved theme the provider exposes equals the system theme it
  exposes; after at least one notification both are what the last notification reported.
\<close>

theorem system_preference_resolves_to_systemTheme:
  assumes "theme st = ''system''"
  shows "ctx_theme (contextValue props (osThemeChanges props ms st)) = ''system'' \<and>
         ctx_resolvedTheme (contextValue props (osThemeChanges props ms st)) =
           ctx_systemTheme (contextValue props (osThemeChanges props ms st)) \<and>
         (ms \<noteq> [] \<longrightarrow>
            ctx_systemTheme (contextValue props (osThemeChanges props ms st)) = osTheme (last ms))"
  using assms
  by (simp add: contextValue_def theme_osThemeChanges resolvedTheme_def
      systemTheme_osThemeChanges_system)

theorem system_preference_resolves_to_systemTheme_witness:
  "theme systemLightInstance = ''system'' \<and> [True, False, True] \<noteq> [] \<and>
   ctx_resolvedTheme
     (contextValue defaultProps
        (osThemeChanges defaultProps [True, False, True] systemLightInstance)) = ''dark''"
proof -
  have h: "theme systemLightInstance = ''system''"
    by (rule theme_systemLightInstance)
  from system_preference_resolves_to_systemTheme [OF h, of defaultProps "[True, False, True]"] h
  show ?thesis by (simp add: osTheme_def)
qed

section \<open>Persistence\<close>

text \<open>
  Claim C7. When the write to storage throws during \<^verbatim>\<open>setTheme(p)\<close>, the exception is
  caught: \<^verbatim>\<open>setTheme\<close> returns the updated instance, whose preference is \<open>p\<close> and whose
  resolved theme is that of \<open>p\<close> (\<open>p\<close> itself, or the system theme for \<^verbatim>\<open>"system"\<close>);
  the storage is left as it was.
\<close>

theorem setTheme_swallows_storage_failure:
  assumes "setItem_throws (localStorage (window st))"
  shows "setItem (localStorage (window st)) (storageKey props) p = Inl QuotaExceededError \<and>
         ctx_theme (contextValue props (setTheme props p st)) = p \<and>
         ctx_resolvedTheme (contextValue props (setTheme props p st)) =
           (if p = ''system'' then systemTheme st else p) \<and>
         localStorage (window (setTheme props p st)) = localStorage (window st)"
  using assms
  by (simp add: contextValue_def theme_setTheme systemTheme_setTheme localStorage_setTheme
      setItem_def resolvedTheme_def)

theorem setTheme_swallows_storage_failure_witness:
  "setItem_throws (localStorage (window blockedInstance)) \<and>
   ctx_theme (contextValue defaultProps (setTheme defaultProps ''light'' blockedInstance)) = ''light'' \<and>
   ctx_resolvedTheme
     (contextValue defaultProps (setTheme defaultProps ''light'' blockedInstance)) = ''light''"
proof -
  have h: "setItem_throws (localStorage (window blockedInstance))"
    by (rule setItem_throws_blockedInstance)
  from setTheme_swallows_storage_failure [OF h, of defaultProps "''light''"] h
  show ?thesis by simp
qed

text \<open>
  Claim C8. For each of the three preferences \<open>p\<close>, with a storage that does not throw,
  \<^verbatim>\<open>setTheme(p)\<close> stores \<open>p\<close> under the configured key, and a provider mounted afterwards
  on that storage with the same key (its other props may differ) starts with the
  preference \<open>p\<close>.
\<close>

theorem preference_round_trip:
  assumes "p \<in> {''light'', ''dark'', ''system''}"
    and "\<not> setItem_throws (localStorage (window st))"
    and "\<not> getItem_throws (localStorage (window st))"
    and "storageKey props' = storageKey props"
    and "localStorage win' = localStorage (window (setTheme props p st))"
  shows "getItem (localStorage (window (setTheme props p st))) (storageKey props) = Inr (Some p) \<and>
         theme (mount props' win') = p"
  using assms
  by (auto simp add: theme_mount initialTheme_def localStorage_setTheme setItem_def getItem_def
      or_else_def)

theorem preference_round_trip_witness:
  "''dark'' \<in> {''light'', ''dark'', ''system''} \<and>
   \<not> setItem_throws (localStorage (window systemLightInstance)) \<and>
   \<not> getItem_throws (localStorage (window systemLightInstance)) \<and>
   getItem (localStorage (window (setTheme defaultProps ''dark'' systemLightInstance))) ''ui-theme'' =
     Inr (Some ''dark'') \<and>
   theme (mount defaultProps (window (setTheme defaultProps ''dark'' systemLightInstance))) = ''dark''"
proof -
  have a: "''dark'' \<in> {''light'', ''dark'', ''system''}"
    by simp
  have b: "\<not> setItem_throws (localStorage (window systemLightInstance))"
    by (simp add: localStorage_systemLightInstance workingStorage_def)
  have c: "\<not> getItem_throws (localStorage (window systemLightInstance))"
    by (simp add: localStorage_systemLightInstance workingStorage_def)
  from preference_round_trip [OF a b c refl refl, of defaultProps] a b c
  show ?thesis by (simp add: defaultProps_def)
qed

section \<open>Overlapping suppressions of transitions\<close>

text \<open>
  Claim C9, as stated, says that the removal scheduled by a theme change strips only rules
  of that or an earlier change, never the rule of a newer change. It fails after two
  changes with no frame in between: the head holds rule 0 of the first change and rule 1 of
  the second, and the callback scheduled by the first change, the first to run, removes
  both, while the callback of the second change is still waiting.
\<close>

theorem first_callback_removes_newer_rule:
  "map node_id (head_styles twoChanges) = [0, 1] \<and>
   frame_callbacks twoChanges = [0, 1] \<and>
   head_styles (runNextCallback twoChanges) = [] \<and>
   frame_callbacks (runNextCallback twoChanges) = [1]"
  by (simp add: runNextCallback_def frameCallback_def head_styles_twoChanges
      frame_callbacks_twoChanges Let_def removeChild_def transition_css_includes_marker)

text \<open>
  Claim C9, amended. Each scheduled removal goes through the \<^verbatim>\<open>style\<close> elements below
  the head in document order and removes every one whose text contains
  \<^verbatim>\<open>transition: none !important\<close>, whichever change injected it, the rules of newer
  changes among them, keeping the other \<^verbatim>\<open>style\<close> elements in their order. It goes on
  until it meets such an element that is not a child of the head: there
  \<^verbatim>\<open>removeChild\<close> throws \<^verbatim>\<open>NotFoundError\<close> and the removal ends, leaving that
  element and every \<^verbatim>\<open>style\<close> element after it, injected rules included, in place.
  When no element with that text lies deeper than a child of the head, the removal strips
  every element with that text and does not throw. Rules are told apart by their text
  only, which is the same for every change, so the whole frame leaves the head as its
  first callback left it.
\<close>

theorem removal_strips_marked_rules:
  assumes "frame_callbacks doc = tag # rest"
  shows "head_styles (runNextCallback doc) =
           filter (\<lambda>s. \<not> marked s) (takeWhile (\<lambda>s. \<not> blocks s) (head_styles doc)) @
           dropWhile (\<lambda>s. \<not> blocks s) (head_styles doc) \<and>
         frame_callbacks (runNextCallback doc) = rest \<and>
         snd (frameCallback doc) =
           (if list_ex blocks (head_styles doc) then Some NotFoundError else None) \<and>
         (\<not> list_ex blocks (head_styles doc) \<longrightarrow>
            head_styles (runNextCallback doc) =
              filter (\<lambda>s. \<not> marked s) (head_styles doc)) \<and>
         head_styles (animationFrame doc) = head_styles (runNextCallback doc)"
proof -
  from assms have ne: "frame_callbacks doc \<noteq> []" by simp
  have a: "head_styles (runNextCallback doc) = sweep (head_styles doc)"
    using ne by (simp add: head_styles_runNextCallback)
  have b: "frame_callbacks (runNextCallback doc) = rest"
    using assms by (simp add: frame_callbacks_runNextCallback)
  have c: "snd (frameCallback doc) =
           (if list_ex blocks (head_styles doc) then Some NotFoundError else None)"
    by (simp add: frameCallback_sweep)
  have d: "\<not> list_ex blocks (head_styles doc) \<longrightarrow>
            head_styles (runNextCallback doc) = filter (\<lambda>s. \<not> marked s) (head_styles doc)"
    using a by (simp add: sweep_no_blocks)
  have e: "head_styles (animationFrame doc) = head_styles (runNextCallback doc)"
    using ne a by (simp add: head_styles_animationFrame)
  from a b c d e show ?thesis by (simp add: sweep_def)
qed

theorem removal_strips_marked_rules_witness:
  "frame_callbacks twoChanges = 0 # [1] \<and>
   \<not> list_ex blocks (head_styles twoChanges) \<and>
   head_styles (runNextCallback twoChanges) = [] \<and>
   frame_callbacks nestedStyleChange = 1 # [] \<and>
   list_ex blocks (head_styles nestedStyleChange) \<and>
   snd (frameCallback nestedStyleChange) = Some NotFoundError \<and>
   head_styles (runNextCallback nestedStyleChange) = head_styles nestedStyleChange"
proof -
  have h: "frame_callbacks twoChanges = 0 # [1]"
    by (simp add: frame_callbacks_twoChanges)
  have k: "frame_callbacks nestedStyleChange = 1 # []"
    by (simp add: frame_callbacks_nestedStyleChange)
  have nb: "\<not> list_ex blocks (head_styles twoChanges)"
    by (simp add: head_styles_twoChanges blocks_def)
  have bl: "list_ex blocks (head_styles nestedStyleChange)"
    by (simp add: head_styles_nestedStyleChange blocks_def marked_def
        still_css_includes_marker)
  from removal_strips_marked_rules [OF h] removal_strips_marked_rules [OF k] h k nb bl
  show ?thesis
    by (simp add: head_styles_twoChanges head_styles_nestedStyleChange blocks_def marked_def
        still_css_includes_marker transition_css_includes_marker)
qed

section \<open>Resolution inside the routine and resolution exposed to consumers\<close>

text \<open>
  Claim C10. For every theme value and every system theme value, the value that
  \<^verbatim>\<open>applyTheme\<close> computes and returns as \<^verbatim>\<open>resolved\<close> is the \<^verbatim>\<open>resolvedTheme\<close> that
  the provider exposes for the same two inputs: the two computations agree, whatever the
  props and the document.
\<close>

theorem applyTheme_returns_resolvedTheme:
  "fst (applyTheme props systemTheme_v theme_v doc) = resolvedTheme theme_v systemTheme_v"
  by (simp add: applyTheme_def resolvedTheme_def Let_def)

end
